theory Spec2Isabelle
  imports Main "HOL-Library.Sublist"
begin

section \<open>Data model\<close>

text \<open>
  The core package of goletan/core (\<^verbatim>\<open>Core\<close>, \<^verbatim>\<open>Start\<close>, \<^verbatim>\<open>Shutdown\<close>,
  \<^verbatim>\<open>startServiceWatcher\<close> and the three event handlers) holds no data of its own: every
  field of \<^verbatim>\<open>Core\<close> is a handle on an external library (observability, resilience,
  services). The embedding therefore keeps the state of those libraries as one opaque
  value and records, in order, every call the core makes on them.
\<close>

type_synonym error = string

text \<open>\<^verbatim>\<open>serTypes.ServiceEndpoint\<close>: the two fields the core reads.\<close>

record ServiceEndpoint =
  Name :: string
  Address :: string

text \<open>The element type of the channel returned by \<^verbatim>\<open>Services.Watch\<close>: the event type is a
  string, compared by the \<^verbatim>\<open>switch\<close> of the watch loop.\<close>

record Event =
  Type :: string
  Service :: ServiceEndpoint

datatype Level = InfoLevel | WarnLevel | ErrorLevel | FatalLevel

text \<open>What the core does to its collaborators: a log entry (level, message, fields) or a
  call of one of their methods.\<close>

datatype 'svc action =
    Log Level string "(string \<times> string) list"
  | CallWatch string
  | CallCreateService ServiceEndpoint
  | CallRegister 'svc
  | CallInitialize 'svc
  | CallStart 'svc
  | CallStopAll
  | CallResilienceShutdown

text \<open>
  The collaborators are parameters. \<open>'p\<close> is the state of the external libraries (the
  services registry with its service objects, the resilience service), \<open>'svc\<close> the handle
  \<^verbatim>\<open>CreateService\<close> returns. Each method takes the state and returns its Go result
  together with the new state; a Go \<^verbatim>\<open>error\<close> result is \<open>Some err\<close>, \<^verbatim>\<open>nil\<close> is \<open>None\<close>.

  \<open>FatalTerminates\<close> says what \<^verbatim>\<open>Logger.Fatal\<close> does after writing its entry: zap's logger
  ends the process (\<^verbatim>\<open>os.Exit(1)\<close>) unless it was built with another fatal hook; a logger
  whose \<^verbatim>\<open>Fatal\<close> returns to the caller has \<open>FatalTerminates = False\<close>.
\<close>

record ('p, 'svc) Capabilities =
  Watch :: "string \<Rightarrow> 'p \<Rightarrow> error option \<times> 'p"
  CreateService :: "ServiceEndpoint \<Rightarrow> 'p \<Rightarrow> (error + 'svc) \<times> 'p"
  Register :: "'svc \<Rightarrow> 'p \<Rightarrow> error option \<times> 'p"
  Initialize :: "'svc \<Rightarrow> 'p \<Rightarrow> error option \<times> 'p"
  Start :: "'svc \<Rightarrow> 'p \<Rightarrow> error option \<times> 'p"
  ServiceName :: "'svc \<Rightarrow> string"
  StopAll :: "'p \<Rightarrow> error option \<times> 'p"
  ResilienceShutdown :: "'p \<Rightarrow> error option \<times> 'p"
  FatalTerminates :: bool

text \<open>The state a method of \<^verbatim>\<open>Core\<close> works on: the external state behind the handles of the
  \<^verbatim>\<open>Core\<close> struct, and the actions performed so far.\<close>

record ('p, 'svc) Core =
  ext :: 'p
  trace :: "'svc action list"

definition logAt :: "Level \<Rightarrow> string \<Rightarrow> (string \<times> string) list \<Rightarrow> ('p, 'svc) Core \<Rightarrow> ('p, 'svc) Core" where
  "logAt l msg kvs c = c\<lparr>trace := trace c @ [Log l msg kvs]\<rparr>"

definition called :: "'svc action \<Rightarrow> 'p \<Rightarrow> ('p, 'svc) Core \<Rightarrow> ('p, 'svc) Core" where
  "called a p c = c\<lparr>ext := p, trace := trace c @ [a]\<rparr>"

section \<open>Event handlers\<close>

text \<open>\<^verbatim>\<open>handleServiceAdded\<close>: create, register, initialize, start; each failure is logged at
  error level and ends the handler.\<close>

definition handleServiceAdded ::
  "('p, 'svc) Capabilities \<Rightarrow> ServiceEndpoint \<Rightarrow> ('p, 'svc) Core \<Rightarrow> ('p, 'svc) Core" where
  "handleServiceAdded env endpoint c0 =
    (let c1 = logAt InfoLevel ''Adding service''
                [(''name'', Name endpoint), (''address'', Address endpoint)] c0
     in case CreateService env endpoint (ext c1) of
          (Inl err, p1) \<Rightarrow>
            logAt ErrorLevel ''Failed to create service''
              [(''name'', Name endpoint), (''error'', err)]
              (called (CallCreateService endpoint) p1 c1)
        | (Inr service, p1) \<Rightarrow>
            (let c2 = called (CallCreateService endpoint) p1 c1
             in case Register env service (ext c2) of
                  (Some err, p2) \<Rightarrow>
                    logAt ErrorLevel ''Failed to register service''
                      [(''name'', ServiceName env service), (''error'', err)]
                      (called (CallRegister service) p2 c2)
                | (None, p2) \<Rightarrow>
                    (let c3 = called (CallRegister service) p2 c2
                     in case Initialize env service (ext c3) of
                          (Some err, p3) \<Rightarrow>
                            logAt ErrorLevel ''Failed to initialize service''
                              [(''name'', ServiceName env service), (''error'', err)]
                              (called (CallInitialize service) p3 c3)
                        | (None, p3) \<Rightarrow>
                            (let c4 = called (CallInitialize service) p3 c3
                             in case Start env service (ext c4) of
                                  (Some err, p4) \<Rightarrow>
                                    logAt ErrorLevel ''Failed to start service''
                                      [(''name'', ServiceName env service), (''error'', err)]
                                      (called (CallStart service) p4 c4)
                                | (None, p4) \<Rightarrow> called (CallStart service) p4 c4))))"

text \<open>\<^verbatim>\<open>handleServiceDeleted\<close> and \<^verbatim>\<open>handleServiceModified\<close>: one log entry each; their bodies
  end in a comment.\<close>

definition handleServiceDeleted :: "ServiceEndpoint \<Rightarrow> ('p, 'svc) Core \<Rightarrow> ('p, 'svc) Core" where
  "handleServiceDeleted endpoint c =
     logAt InfoLevel ''Removing service''
       [(''name'', Name endpoint), (''address'', Address endpoint)] c"

definition handleServiceModified :: "ServiceEndpoint \<Rightarrow> ('p, 'svc) Core \<Rightarrow> ('p, 'svc) Core" where
  "handleServiceModified endpoint c =
     logAt InfoLevel ''Modifying service''
       [(''name'', Name endpoint), (''address'', Address endpoint)] c"

text \<open>The \<^verbatim>\<open>switch event.Type\<close> of the watch loop: three cases and no default.\<close>

definition dispatchEvent ::
  "('p, 'svc) Capabilities \<Rightarrow> Event \<Rightarrow> ('p, 'svc) Core \<Rightarrow> ('p, 'svc) Core" where
  "dispatchEvent env event c =
     (if Type event = ''ADDED'' then handleServiceAdded env (Service event) c
      else if Type event = ''DELETED'' then handleServiceDeleted (Service event) c
      else if Type event = ''MODIFIED'' then handleServiceModified (Service event) c
      else c)"

section \<open>The watch loop\<close>

text \<open>
  The loop waits in a \<^verbatim>\<open>select\<close> on \<^verbatim>\<open>ctx.Done()\<close> and on the event channel. What the
  loop can observe of them is: whether the context is cancelled, the events sent and not
  yet received (in sending order), and whether the channel is closed.
\<close>

record WatchStream =
  cancelled :: bool
  queue :: "Event list"
  closed :: bool

text \<open>
  A run of the loop is driven by what happens around it, in time order: the context is
  cancelled, the registry sends an event, the registry closes the channel, or the loop
  executes its \<^verbatim>\<open>select\<close>. When both cases of a Go \<^verbatim>\<open>select\<close> can proceed, one of them is
  chosen at random; \<open>Pick\<close> is that choice, and it is consulted in no other situation.
\<close>

datatype Pick = PickDone | PickEvent

datatype Step = Cancel | Arrive Event | CloseCh | Select Pick

datatype Exit = Waiting | Cancelled | ChannelClosed | OpenFailed | ProcessExited

text \<open>
  \<^verbatim>\<open>for { select { ... } }\<close> of \<^verbatim>\<open>startServiceWatcher\<close>. A receive on a closed channel first
  yields the events still queued and then \<^verbatim>\<open>ok = false\<close>. A \<^verbatim>\<open>select\<close> with no case ready
  blocks until a later step makes one ready. When the steps are used up the loop is
  still waiting in its \<^verbatim>\<open>select\<close> (\<open>Waiting\<close>); every other result is a \<^verbatim>\<open>return\<close>.
\<close>

fun watchLoop ::
  "('p, 'svc) Capabilities \<Rightarrow> Step list \<Rightarrow> WatchStream \<Rightarrow> ('p, 'svc) Core
     \<Rightarrow> Exit \<times> WatchStream \<times> ('p, 'svc) Core" where
  "watchLoop env [] st c = (Waiting, st, c)"
| "watchLoop env (Cancel # steps) st c = watchLoop env steps (st\<lparr>cancelled := True\<rparr>) c"
| "watchLoop env (Arrive e # steps) st c =
     watchLoop env steps (if closed st then st else st\<lparr>queue := queue st @ [e]\<rparr>) c"
| "watchLoop env (CloseCh # steps) st c = watchLoop env steps (st\<lparr>closed := True\<rparr>) c"
| "watchLoop env (Select pick # steps) st c =
     (if cancelled st \<and> ((queue st = [] \<and> \<not> closed st) \<or> pick = PickDone) then
        (Cancelled, st, logAt InfoLevel ''Stopping service watcher...'' [] c)
      else
        (case queue st of
           event # rest \<Rightarrow> watchLoop env steps (st\<lparr>queue := rest\<rparr>) (dispatchEvent env event c)
         | [] \<Rightarrow>
             if closed st then
               (ChannelClosed, st, logAt WarnLevel ''Service watcher channel closed'' [] c)
             else watchLoop env steps st c))"

text \<open>\<^verbatim>\<open>startServiceWatcher\<close>: open the watch once; on failure log at fatal level and, if the
  logger returns, return; otherwise run the loop on the new (empty, open) channel.\<close>

definition startServiceWatcher ::
  "('p, 'svc) Capabilities \<Rightarrow> Step list \<Rightarrow> ('p, 'svc) Core
     \<Rightarrow> Exit \<times> WatchStream \<times> ('p, 'svc) Core" where
  "startServiceWatcher env steps c =
     (let st0 = \<lparr>cancelled = False, queue = [], closed = False\<rparr> in
      case Watch env ''default-namespace'' (ext c) of
        (Some err, p) \<Rightarrow>
          (let c1 = logAt FatalLevel ''Failed to start service watcher'' [(''error'', err)]
                      (called (CallWatch ''default-namespace'') p c)
           in (if FatalTerminates env then ProcessExited else OpenFailed, st0, c1))
      | (None, p) \<Rightarrow> watchLoop env steps st0 (called (CallWatch ''default-namespace'') p c))"

section \<open>Shutdown\<close>

definition Shutdown ::
  "('p, 'svc) Capabilities \<Rightarrow> ('p, 'svc) Core \<Rightarrow> error option \<times> ('p, 'svc) Core" where
  "Shutdown env c0 =
     (let c1 = logAt InfoLevel ''Shutting down Services...'' [] c0;
          (r1, p1) = StopAll env (ext c1);
          c2 = called CallStopAll p1 c1;
          c3 = (case r1 of
                  Some err \<Rightarrow> logAt ErrorLevel ''Failed to stop services'' [(''error'', err)] c2
                | None \<Rightarrow> c2);
          c4 = logAt InfoLevel ''Shutting down Resilience...'' [] c3;
          (r2, p2) = ResilienceShutdown env (ext c4);
          c5 = called CallResilienceShutdown p2 c4
      in case r2 of
           Some err \<Rightarrow>
             (Some err, logAt ErrorLevel ''Failed to shut down resilience'' [(''error'', err)] c5)
         | None \<Rightarrow> (None, logAt InfoLevel ''Core shut down successfully'' [] c5))"

section \<open>Observing a run\<close>

text \<open>The calls among the recorded actions, in order.\<close>

fun isCall :: "'svc action \<Rightarrow> bool" where
  "isCall (Log l msg kvs) = False"
| "isCall a = True"

definition calls :: "'svc action list \<Rightarrow> 'svc action list" where
  "calls t = filter isCall t"

text \<open>
  Each handler starts with an info entry of its own message and the fields name and
  address of its argument: the handler invocations of a run, with their arguments, are
  read off the trace.
\<close>

definition handlerOf :: "string \<Rightarrow> string option" where
  "handlerOf msg =
     (if msg = ''Adding service'' then Some ''ADDED''
      else if msg = ''Removing service'' then Some ''DELETED''
      else if msg = ''Modifying service'' then Some ''MODIFIED''
      else None)"

fun handled :: "'svc action \<Rightarrow> Event option" where
  "handled (Log InfoLevel msg [(k1, n), (k2, a)]) =
     (if k1 = ''name'' \<and> k2 = ''address''
      then map_option (\<lambda>t. \<lparr>Type = t, Service = \<lparr>Name = n, Address = a\<rparr>\<rparr>) (handlerOf msg)
      else None)"
| "handled a = None"

definition dispatched :: "'svc action list \<Rightarrow> Event list" where
  "dispatched t = List.map_filter handled t"



section \<open>A registry to run the core against\<close>

text \<open>
  Modelled from the spec: the services registry and the resilience service are external
  libraries (github.com/goletan/services, github.com/goletan/resilience) and not part
  of the sources. Section 3 of the spec describes the orchestrator state as the mapping
  from service name to managed service, filled by a successful \<^verbatim>\<open>Register\<close>; section 6
  lists the capabilities. Which calls fail is given as a list of actions: a call fails
  exactly when its action is in the list, and a failing call leaves the state as it is.
\<close>

record Registry =
  services :: "string \<rightharpoonup> ServiceEndpoint"
  initialized :: "string list"
  running :: "string list"
  resilienceUp :: bool

definition outcome :: "ServiceEndpoint action list \<Rightarrow> ServiceEndpoint action \<Rightarrow> error option" where
  "outcome failing a = (if a \<in> set failing then Some ''failed'' else None)"

definition registryProvider ::
  "ServiceEndpoint action list \<Rightarrow> bool \<Rightarrow> (Registry, ServiceEndpoint) Capabilities" where
  "registryProvider failing fatal =
     \<lparr>Watch = (\<lambda>ns p. (outcome failing (CallWatch ns), p)),
      CreateService = (\<lambda>ep p.
        (if CallCreateService ep \<in> set failing then Inl ''failed'' else Inr ep, p)),
      Register = (\<lambda>sv p.
        if CallRegister sv \<in> set failing then (Some ''failed'', p)
        else (None, p\<lparr>services := (services p)(Name sv \<mapsto> sv)\<rparr>)),
      Initialize = (\<lambda>sv p.
        if CallInitialize sv \<in> set failing then (Some ''failed'', p)
        else (None, p\<lparr>initialized := initialized p @ [Name sv]\<rparr>)),
      Start = (\<lambda>sv p.
        if CallStart sv \<in> set failing then (Some ''failed'', p)
        else (None, p\<lparr>running := running p @ [Name sv]\<rparr>)),
      ServiceName = Name,
      StopAll = (\<lambda>p.
        if CallStopAll \<in> set failing then (Some ''failed'', p)
        else (None, p\<lparr>running := []\<rparr>)),
      ResilienceShutdown = (\<lambda>p.
        if CallResilienceShutdown \<in> set failing then (Some ''failed'', p)
        else (None, p\<lparr>resilienceUp := False\<rparr>)),
      FatalTerminates = fatal\<rparr>"

text \<open>Sample data for the concrete runs below.\<close>

definition svcA :: ServiceEndpoint where
  "svcA = \<lparr>Name = ''a'', Address = ''10.0.0.1:80''\<rparr>"

definition svcB :: ServiceEndpoint where
  "svcB = \<lparr>Name = ''b'', Address = ''10.0.0.2:80''\<rparr>"

definition emptyCore :: "(Registry, ServiceEndpoint) Core" where
  "emptyCore =
     \<lparr>ext = \<lparr>services = Map.empty, initialized = [], running = [], resilienceUp = True\<rparr>,
      trace = []\<rparr>"

definition openStream :: WatchStream where
  "openStream = \<lparr>cancelled = False, queue = [], closed = False\<rparr>"

text \<open>The core after a successful ADDED event for \<open>svcA\<close>.\<close>

definition registeredA :: "(Registry, ServiceEndpoint) Core" where
  "registeredA = handleServiceAdded (registryProvider [] False) svcA emptyCore"

text \<open>The scenario of section 8 of the spec: each event is received before the next one
  is sent.\<close>

definition scenario :: "Step list" where
  "scenario =
     [Arrive \<lparr>Type = ''ADDED'', Service = svcA\<rparr>, Select PickEvent,
      Arrive \<lparr>Type = ''ADDED'', Service = svcB\<rparr>, Select PickEvent,
      Arrive \<lparr>Type = ''DELETED'', Service = svcA\<rparr>, Select PickEvent,
      Arrive \<lparr>Type = ''MODIFIED'', Service = svcB\<rparr>, Select PickEvent]"


section \<open>Basic facts about the trace\<close>

lemmas run_defs = registryProvider_def emptyCore_def openStream_def svcA_def svcB_def
  handleServiceAdded_def handleServiceDeleted_def handleServiceModified_def dispatchEvent_def
  startServiceWatcher_def logAt_def called_def outcome_def calls_def Let_def

lemma ext_logAt: "ext (logAt l m k c) = ext c"
  by (simp add: logAt_def)

lemma trace_logAt: "trace (logAt l m k c) = trace c @ [Log l m k]"
  by (simp add: logAt_def)

lemma ext_called: "ext (called a p c) = p"
  by (simp add: called_def)

lemma trace_called: "trace (called a p c) = trace c @ [a]"
  by (simp add: called_def)

lemma calls_append: "calls (t @ u) = calls t @ calls u"
  by (simp add: calls_def)

lemma calls_Cons: "calls (a # t) = (if isCall a then a # calls t else calls t)"
  by (simp add: calls_def)

lemma calls_Nil: "calls [] = []"
  by (simp add: calls_def)








section \<open>Order of dispatch\<close>




section \<open>The ADDED handler\<close>

text \<open>
  C2. \<^verbatim>\<open>handleServiceAdded\<close> calls \<^verbatim>\<open>CreateService\<close>, \<^verbatim>\<open>Register\<close>, \<^verbatim>\<open>Initialize\<close> and \<^verbatim>\<open>Start\<close> in
  this order, each at most once, and stops after the first call that fails: the calls
  made are the steps up to and including the failing one, and the external state is the
  one that call returned (nothing is undone). The handler returns no error: the loop
  that received the event continues with the rest of the stream whatever the steps
  returned.
\<close>

theorem handleServiceAdded_steps:
  "(\<forall>err p1. CreateService env ep (ext c) = (Inl err, p1) \<longrightarrow>
      calls (trace (handleServiceAdded env ep c)) = calls (trace c) @ [CallCreateService ep] \<and>
      ext (handleServiceAdded env ep c) = p1) \<and>
   (\<forall>sv p1 err p2.
      CreateService env ep (ext c) = (Inr sv, p1) \<and> Register env sv p1 = (Some err, p2) \<longrightarrow>
      calls (trace (handleServiceAdded env ep c))
        = calls (trace c) @ [CallCreateService ep, CallRegister sv] \<and>
      ext (handleServiceAdded env ep c) = p2) \<and>
   (\<forall>sv p1 p2 err p3.
      CreateService env ep (ext c) = (Inr sv, p1) \<and> Register env sv p1 = (None, p2) \<and>
      Initialize env sv p2 = (Some err, p3) \<longrightarrow>
      calls (trace (handleServiceAdded env ep c))
        = calls (trace c) @ [CallCreateService ep, CallRegister sv, CallInitialize sv] \<and>
      ext (handleServiceAdded env ep c) = p3) \<and>
   (\<forall>sv p1 p2 p3 r p4.
      CreateService env ep (ext c) = (Inr sv, p1) \<and> Register env sv p1 = (None, p2) \<and>
      Initialize env sv p2 = (None, p3) \<and> Start env sv p3 = (r, p4) \<longrightarrow>
      calls (trace (handleServiceAdded env ep c))
        = calls (trace c) @
            [CallCreateService ep, CallRegister sv, CallInitialize sv, CallStart sv] \<and>
      ext (handleServiceAdded env ep c) = p4) \<and>
   (\<forall>st rest pick steps.
      queue st = \<lparr>Type = ''ADDED'', Service = ep\<rparr> # rest \<and>
      \<not> (cancelled st \<and> pick = PickDone) \<longrightarrow>
      watchLoop env (Select pick # steps) st c
        = watchLoop env steps (st\<lparr>queue := rest\<rparr>) (handleServiceAdded env ep c))"
  by (auto simp: handleServiceAdded_def Let_def trace_logAt trace_called ext_logAt ext_called
      calls_append calls_Cons calls_Nil dispatchEvent_def split: option.splits)

theorem handleServiceAdded_steps_witness:
  "CreateService (registryProvider [CallInitialize svcA] False) svcA (ext emptyCore)
     = (Inr svcA, ext emptyCore) \<and>
   Register (registryProvider [CallInitialize svcA] False) svcA (ext emptyCore)
     = (None, (ext emptyCore)\<lparr>services := [''a'' \<mapsto> svcA]\<rparr>) \<and>
   Initialize (registryProvider [CallInitialize svcA] False) svcA
       ((ext emptyCore)\<lparr>services := [''a'' \<mapsto> svcA]\<rparr>)
     = (Some ''failed'', (ext emptyCore)\<lparr>services := [''a'' \<mapsto> svcA]\<rparr>) \<and>
   calls (trace (handleServiceAdded (registryProvider [CallInitialize svcA] False) svcA emptyCore))
     = [CallCreateService svcA, CallRegister svcA, CallInitialize svcA] \<and>
   ext (handleServiceAdded (registryProvider [CallInitialize svcA] False) svcA emptyCore)
     = (ext emptyCore)\<lparr>services := [''a'' \<mapsto> svcA]\<rparr>"
proof -
  let ?env = "registryProvider [CallInitialize svcA] False"
  let ?p = "(ext emptyCore)\<lparr>services := [''a'' \<mapsto> svcA]\<rparr>"
  have c: "CreateService ?env svcA (ext emptyCore) = (Inr svcA, ext emptyCore)"
    by (simp add: registryProvider_def)
  have r: "Register ?env svcA (ext emptyCore) = (None, ?p)"
    by (simp add: registryProvider_def emptyCore_def svcA_def)
  have i: "Initialize ?env svcA ?p = (Some ''failed'', ?p)"
    by (simp add: registryProvider_def)
  have "calls (trace (handleServiceAdded ?env svcA emptyCore))
          = calls (trace emptyCore) @ [CallCreateService svcA, CallRegister svcA, CallInitialize svcA] \<and>
        ext (handleServiceAdded ?env svcA emptyCore) = ?p"
    using handleServiceAdded_steps [of ?env svcA emptyCore] c r i by blast
  then have "calls (trace (handleServiceAdded ?env svcA emptyCore))
          = [CallCreateService svcA, CallRegister svcA, CallInitialize svcA] \<and>
        ext (handleServiceAdded ?env svcA emptyCore) = ?p"
    by (simp add: emptyCore_def calls_Nil)
  with c r i show ?thesis by blast
qed

text \<open>
  C6, as the code has it. When \<^verbatim>\<open>CreateService\<close> succeeds and \<^verbatim>\<open>Register\<close> fails, the handler
  logs the failure and returns: neither \<^verbatim>\<open>Initialize\<close> nor \<^verbatim>\<open>Start\<close> is called, and the
  external state is the one the failed \<^verbatim>\<open>Register\<close> returned. The handler itself adds no
  entry to the service map and removes none.
\<close>

theorem register_failure:
  "CreateService env ep (ext c) = (Inr sv, p1) \<Longrightarrow> Register env sv p1 = (Some err, p2) \<Longrightarrow>
     handleServiceAdded env ep c =
       c\<lparr>ext := p2,
         trace := trace c @
           [Log InfoLevel ''Adding service'' [(''name'', Name ep), (''address'', Address ep)],
            CallCreateService ep, CallRegister sv,
            Log ErrorLevel ''Failed to register service''
              [(''name'', ServiceName env sv), (''error'', err)]]\<rparr>"
  by (simp add: handleServiceAdded_def Let_def logAt_def called_def)

theorem register_failure_witness:
  "CreateService (registryProvider [CallRegister svcA] False) svcA (ext emptyCore)
     = (Inr svcA, ext emptyCore) \<and>
   Register (registryProvider [CallRegister svcA] False) svcA (ext emptyCore)
     = (Some ''failed'', ext emptyCore) \<and>
   services (ext (handleServiceAdded (registryProvider [CallRegister svcA] False) svcA emptyCore))
     (Name svcA) = None \<and>
   calls (trace (handleServiceAdded (registryProvider [CallRegister svcA] False) svcA emptyCore))
     = [CallCreateService svcA, CallRegister svcA]"
proof -
  have c: "CreateService (registryProvider [CallRegister svcA] False) svcA (ext emptyCore)
     = (Inr svcA, ext emptyCore)"
    by (simp add: registryProvider_def)
  have r: "Register (registryProvider [CallRegister svcA] False) svcA (ext emptyCore)
     = (Some ''failed'', ext emptyCore)"
    by (simp add: registryProvider_def)
  from register_failure [OF c r] c r show ?thesis
    by (simp add: emptyCore_def calls_def)
qed

text \<open>
  C6 as the claim states it fails when the service map already holds an entry for the
  endpoint (an earlier ADDED event registered it): \<^verbatim>\<open>CreateService\<close> succeeds, \<^verbatim>\<open>Register\<close>
  fails, and the map still contains the entry afterwards.
\<close>

theorem register_failure_counterexample:
  "fst (CreateService (registryProvider [CallRegister svcA] False) svcA (ext registeredA))
     = Inr svcA \<and>
   fst (Register (registryProvider [CallRegister svcA] False) svcA (ext registeredA))
     = Some ''failed'' \<and>
   services (ext (handleServiceAdded (registryProvider [CallRegister svcA] False) svcA registeredA))
     (Name svcA) = Some svcA"
  by (simp add: run_defs registeredA_def)

section \<open>The DELETED and MODIFIED handlers\<close>

text \<open>
  C3, on the code. After a successful ADDED event for \<open>svcA\<close> the service is in the map and
  running; \<^verbatim>\<open>handleServiceDeleted\<close> for the same endpoint makes no call at all (no \<^verbatim>\<open>Stop\<close>),
  and the service is still in the map and still running afterwards.
\<close>

theorem handleServiceDeleted_leaves_service:
  "services (ext registeredA) ''a'' = Some svcA \<and> running (ext registeredA) = [''a''] \<and>
   services (ext (handleServiceDeleted svcA registeredA)) ''a'' = Some svcA \<and>
   running (ext (handleServiceDeleted svcA registeredA)) = [''a''] \<and>
   calls (trace (handleServiceDeleted svcA registeredA)) = calls (trace registeredA)"
  by (simp add: run_defs registeredA_def)

text \<open>
  C7, on the code. The events ADDED(a), ADDED(b), DELETED(a), MODIFIED(b), every call
  succeeding: all four are received, and afterwards both a and b are in the map and
  running; the calls made are the watch and the four lifecycle calls for a and for b,
  and nothing after the start of b.
\<close>

theorem scenario_run:
  "fst (startServiceWatcher (registryProvider [] False) scenario emptyCore) = Waiting \<and>
   queue (fst (snd (startServiceWatcher (registryProvider [] False) scenario emptyCore))) = [] \<and>
   services (ext (snd (snd (startServiceWatcher (registryProvider [] False) scenario emptyCore))))
     ''a'' = Some svcA \<and>
   services (ext (snd (snd (startServiceWatcher (registryProvider [] False) scenario emptyCore))))
     ''b'' = Some svcB \<and>
   running (ext (snd (snd (startServiceWatcher (registryProvider [] False) scenario emptyCore))))
     = [''a'', ''b''] \<and>
   calls (trace (snd (snd (startServiceWatcher (registryProvider [] False) scenario emptyCore))))
     = [CallWatch ''default-namespace'',
        CallCreateService svcA, CallRegister svcA, CallInitialize svcA, CallStart svcA,
        CallCreateService svcB, CallRegister svcB, CallInitialize svcB, CallStart svcB]"
  by (simp add: run_defs scenario_def)

section \<open>Failure to open the watch\<close>

text \<open>
  C4, as the code has it. When \<^verbatim>\<open>Watch\<close> fails, \<^verbatim>\<open>startServiceWatcher\<close> has called it once,
  writes one entry at fatal level with the error, and dispatches nothing, whatever the
  stream would have delivered. Whether the process survives is decided by the logger:
  the watcher returns to its caller only if \<^verbatim>\<open>Logger.Fatal\<close> returns.
\<close>

theorem watch_open_failure:
  "Watch env ''default-namespace'' (ext c) = (Some err, p) \<Longrightarrow>
     startServiceWatcher env steps c =
       (if FatalTerminates env then ProcessExited else OpenFailed,
        \<lparr>cancelled = False, queue = [], closed = False\<rparr>,
        c\<lparr>ext := p,
          trace := trace c @ [CallWatch ''default-namespace'',
            Log FatalLevel ''Failed to start service watcher'' [(''error'', err)]]\<rparr>)"
  by (simp add: startServiceWatcher_def Let_def logAt_def called_def)

theorem watch_open_failure_witness:
  "Watch (registryProvider [CallWatch ''default-namespace''] False) ''default-namespace''
       (ext emptyCore)
     = (Some ''failed'', ext emptyCore) \<and>
   startServiceWatcher (registryProvider [CallWatch ''default-namespace''] False)
       [Arrive \<lparr>Type = ''ADDED'', Service = svcA\<rparr>, Select PickEvent] emptyCore =
     (OpenFailed, \<lparr>cancelled = False, queue = [], closed = False\<rparr>,
      emptyCore\<lparr>trace := [CallWatch ''default-namespace'',
            Log FatalLevel ''Failed to start service watcher'' [(''error'', ''failed'')]]\<rparr>)"
proof -
  have w: "Watch (registryProvider [CallWatch ''default-namespace''] False) ''default-namespace''
      (ext emptyCore) = (Some ''failed'', ext emptyCore)"
    by (simp add: registryProvider_def outcome_def)
  from watch_open_failure [OF w, of "[Arrive \<lparr>Type = ''ADDED'', Service = svcA\<rparr>, Select PickEvent]"] w show ?thesis
    by (simp add: registryProvider_def emptyCore_def)
qed

text \<open>
  C4 as the claim states it fails with a logger whose \<^verbatim>\<open>Fatal\<close> ends the process, as zap's
  does: the failure to open the watch ends the whole process.
\<close>

theorem watch_open_failure_counterexample:
  "fst (Watch (registryProvider [CallWatch ''default-namespace''] True) ''default-namespace''
         (ext emptyCore))
     = Some ''failed'' \<and>
   fst (startServiceWatcher (registryProvider [CallWatch ''default-namespace''] True) [] emptyCore)
     = ProcessExited"
  by (simp add: run_defs)

section \<open>Cancellation\<close>

text \<open>
  C8, as the code has it. Once the context is cancelled, a \<^verbatim>\<open>select\<close> that finds no event
  ready, or that takes the cancellation case, logs and returns at once; and if every
  \<^verbatim>\<open>select\<close> from the cancellation on takes the cancellation case when it has the choice,
  the loop returns at its first \<^verbatim>\<open>select\<close> and nothing is dispatched, whatever was queued
  and whatever arrives.
\<close>

theorem cancelled_exit:
  "cancelled st \<Longrightarrow>
     ((queue st = [] \<and> \<not> closed st) \<or> pick = PickDone \<longrightarrow>
        watchLoop env (Select pick # steps) st c =
          (Cancelled, st,
           c\<lparr>trace := trace c @ [Log InfoLevel ''Stopping service watcher...'' []]\<rparr>)) \<and>
     (Select PickEvent \<notin> set steps \<longrightarrow>
        fst (watchLoop env steps st c)
          = (if Select PickDone \<in> set steps then Cancelled else Waiting) \<and>
        snd (snd (watchLoop env steps st c)) =
          (if Select PickDone \<in> set steps
           then c\<lparr>trace := trace c @ [Log InfoLevel ''Stopping service watcher...'' []]\<rparr>
           else c))"
proof -
  have global: "cancelled st \<Longrightarrow> Select PickEvent \<notin> set steps \<Longrightarrow>
     fst (watchLoop env steps st c)
       = (if Select PickDone \<in> set steps then Cancelled else Waiting) \<and>
     snd (snd (watchLoop env steps st c)) =
       (if Select PickDone \<in> set steps
        then c\<lparr>trace := trace c @ [Log InfoLevel ''Stopping service watcher...'' []]\<rparr>
        else c)" for steps st
  proof (induction steps arbitrary: st)
    case Nil
    then show ?case by simp
  next
    case (Cons s steps)
    show ?case
    proof (cases s)
      case (Select p)
      with Cons.prems have "p = PickDone" by (cases p) auto
      with Select Cons.prems show ?thesis by (simp add: logAt_def)
    qed (use Cons in auto)
  qed
  assume "cancelled st"
  then show ?thesis using global [of st steps] by (auto simp: logAt_def)
qed

theorem cancelled_exit_witness:
  "cancelled (openStream\<lparr>cancelled := True\<rparr>) \<and>
   Select PickEvent \<notin> set [Arrive \<lparr>Type = ''ADDED'', Service = svcA\<rparr>, Select PickDone] \<and>
   watchLoop (registryProvider [] False)
       [Arrive \<lparr>Type = ''ADDED'', Service = svcA\<rparr>, Select PickDone]
       (openStream\<lparr>cancelled := True\<rparr>) emptyCore =
     (Cancelled,
      openStream\<lparr>cancelled := True, queue := [\<lparr>Type = ''ADDED'', Service = svcA\<rparr>]\<rparr>,
      emptyCore\<lparr>trace := [Log InfoLevel ''Stopping service watcher...'' []]\<rparr>)"
  using cancelled_exit [of "openStream\<lparr>cancelled := True\<rparr>" PickDone "registryProvider [] False"
      "[Arrive \<lparr>Type = ''ADDED'', Service = svcA\<rparr>, Select PickDone]" emptyCore]
  by (simp add: openStream_def emptyCore_def logAt_def)

text \<open>
  C8 as the claim states it fails: the context is cancelled, then an event arrives, then
  the loop reaches its \<^verbatim>\<open>select\<close> with both cases ready and Go picks the event case. The
  event is dispatched (the service is created and started) before the loop exits.
\<close>

theorem cancel_then_event_counterexample:
  "fst (watchLoop (registryProvider [] False)
         [Cancel, Arrive \<lparr>Type = ''ADDED'', Service = svcA\<rparr>, Select PickEvent, Select PickDone]
         openStream emptyCore) = Cancelled \<and>
   dispatched (trace (snd (snd (watchLoop (registryProvider [] False)
         [Cancel, Arrive \<lparr>Type = ''ADDED'', Service = svcA\<rparr>, Select PickEvent, Select PickDone]
         openStream emptyCore)))) = [\<lparr>Type = ''ADDED'', Service = svcA\<rparr>] \<and>
   running (ext (snd (snd (watchLoop (registryProvider [] False)
         [Cancel, Arrive \<lparr>Type = ''ADDED'', Service = svcA\<rparr>, Select PickEvent, Select PickDone]
         openStream emptyCore)))) = [''a'']"
  by (simp add: run_defs dispatched_def handlerOf_def)

section \<open>Closure of the event channel\<close>



section \<open>Unknown event types\<close>

text \<open>
  C10. An event whose type is none of ADDED, DELETED and MODIFIED falls through the
  \<^verbatim>\<open>switch\<close>: no handler runs and nothing changes (not even a log entry is written), and
  the loop that received it goes on with the rest of the stream.
\<close>

theorem unknown_event_ignored:
  "Type event \<notin> {''ADDED'', ''DELETED'', ''MODIFIED''} \<Longrightarrow>
     dispatchEvent env event c = c \<and>
     (queue st = event # rest \<and> \<not> (cancelled st \<and> pick = PickDone) \<longrightarrow>
        watchLoop env (Select pick # steps) st c = watchLoop env steps (st\<lparr>queue := rest\<rparr>) c)"
  by (simp add: dispatchEvent_def)

theorem unknown_event_ignored_witness:
  "Type \<lparr>Type = ''BOOKMARK'', Service = svcA\<rparr> \<notin> {''ADDED'', ''DELETED'', ''MODIFIED''} \<and>
   dispatchEvent (registryProvider [] False) \<lparr>Type = ''BOOKMARK'', Service = svcA\<rparr> emptyCore
     = emptyCore \<and>
   watchLoop (registryProvider [] False) [Select PickEvent, CloseCh, Select PickEvent]
       (openStream\<lparr>queue := [\<lparr>Type = ''BOOKMARK'', Service = svcA\<rparr>]\<rparr>) emptyCore =
     (ChannelClosed, openStream\<lparr>closed := True\<rparr>,
      emptyCore\<lparr>trace := [Log WarnLevel ''Service watcher channel closed'' []]\<rparr>)"
  using unknown_event_ignored [of "\<lparr>Type = ''BOOKMARK'', Service = svcA\<rparr>"
      "registryProvider [] False" emptyCore
      "openStream\<lparr>queue := [\<lparr>Type = ''BOOKMARK'', Service = svcA\<rparr>]\<rparr>" "[]" PickEvent
      "[CloseCh, Select PickEvent]"]
  by (simp add: openStream_def emptyCore_def logAt_def)

section \<open>Shutdown\<close>

text \<open>
  C5. Whatever \<^verbatim>\<open>StopAll\<close> and the resilience shutdown return, \<^verbatim>\<open>Shutdown\<close> makes exactly
  the two calls \<^verbatim>\<open>StopAll\<close> and then \<^verbatim>\<open>Resilience.Shutdown\<close>, the second on the state the
  first one left; a failure of \<^verbatim>\<open>StopAll\<close> is logged at error level and changes nothing
  else. The result of \<^verbatim>\<open>Shutdown\<close> is the result of the resilience shutdown.
\<close>

theorem Shutdown_sequence:
  "calls (trace (snd (Shutdown env c))) = calls (trace c) @ [CallStopAll, CallResilienceShutdown] \<and>
   ext (snd (Shutdown env c)) = snd (ResilienceShutdown env (snd (StopAll env (ext c)))) \<and>
   fst (Shutdown env c) = fst (ResilienceShutdown env (snd (StopAll env (ext c)))) \<and>
   (\<forall>err. fst (StopAll env (ext c)) = Some err \<longrightarrow>
      Log ErrorLevel ''Failed to stop services'' [(''error'', err)]
        \<in> set (trace (snd (Shutdown env c))))"
  by (auto simp: Shutdown_def Let_def ext_logAt trace_logAt ext_called trace_called calls_append
      calls_def split: prod.splits option.splits)

theorem Shutdown_sequence_witness:
  "fst (StopAll (registryProvider [CallStopAll] False) (ext emptyCore)) = Some ''failed'' \<and>
   calls (trace (snd (Shutdown (registryProvider [CallStopAll] False) emptyCore)))
     = [CallStopAll, CallResilienceShutdown] \<and>
   resilienceUp (ext (snd (Shutdown (registryProvider [CallStopAll] False) emptyCore))) = False \<and>
   fst (Shutdown (registryProvider [CallStopAll] False) emptyCore) = None \<and>
   Log ErrorLevel ''Failed to stop services'' [(''error'', ''failed'')]
     \<in> set (trace (snd (Shutdown (registryProvider [CallStopAll] False) emptyCore)))"
  using Shutdown_sequence [of "registryProvider [CallStopAll] False" emptyCore]
  by (simp add: registryProvider_def emptyCore_def calls_def)

end
